theory Spec2Isabelle
  imports Complex_Main "HOL-Library.Option_ord" "HOL-Library.Char_ord"
    "HOL-Library.List_Lexorder"
begin

section \<open>Values, documents and the store\<close>

text \<open>
  Values that \<open>express.json()\<close> puts into \<open>req.body\<close>, plus \<open>undefined\<close> for a
  property that is not there. A JSON number is kept as the rational it denotes.
\<close>

datatype jsval =
    JUndefined
  | JNull
  | JBool bool
  | JNum rat
  | JStr string
  | JArr "jsval list"
  | JObj "(string \<times> jsval) list"

text \<open>JavaScript truthiness: \<open>undefined\<close>, \<open>null\<close>, \<open>false\<close>, \<open>0\<close> and \<open>""\<close> are falsy.\<close>

fun truthy :: "jsval \<Rightarrow> bool" where
  "truthy JUndefined = False"
| "truthy JNull = False"
| "truthy (JBool b) = b"
| "truthy (JNum n) = (n \<noteq> 0)"
| "truthy (JStr s) = (s \<noteq> [])"
| "truthy (JArr xs) = True"
| "truthy (JObj kv) = True"

text \<open>The operator \<open>a || b\<close>.\<close>

definition js_or :: "jsval \<Rightarrow> jsval \<Rightarrow> jsval" where
  "js_or a b = (if truthy a then a else b)"

text \<open>Property access \<open>req.body.k\<close> on the parsed body object.\<close>

definition field :: "(string \<rightharpoonup> jsval) \<Rightarrow> string \<Rightarrow> jsval" where
  "field b k = (case b k of None \<Rightarrow> JUndefined | Some v \<Rightarrow> v)"

text \<open>An ObjectId, identified with its canonical hexadecimal string.\<close>

type_synonym oid = string

text \<open>
  Exceptions that reach a handler's \<open>catch\<close>: an error raised by bcryptjs or
  jsonwebtoken with its message, a Mongoose cast failure on a path, a store that
  cannot be reached (the connection attempt of lines 27-34 only logs a failure),
  a duplicate \<open>_id\<close>, and a \<open>TypeError\<close> of the language itself.
\<close>

datatype exn =
    Error string
  | CastError string
  | ValidationError string
  | MongoError
  | DuplicateKey oid
  | TypeError

text \<open>\<open>UserSchema\<close> (lines 46-50) and \<open>ProjectSchema\<close> (lines 36-42), with the \<open>_id\<close>
  Mongoose adds. Every declared path has type \<open>String\<close> and no default, so a stored
  path holds a string, \<open>null\<close>, or nothing (\<open>JUndefined\<close>). The version key that
  Mongoose keeps in each document is never read or written by a handler and is left
  out.\<close>

record User =
  u_id :: oid
  username :: jsval
  email :: jsval
  password :: jsval

record Project =
  p_id :: oid
  name :: jsval
  userId :: jsval
  htmlCode :: jsval
  cssCode :: jsval
  jsCode :: jsval

text \<open>The two collections in their natural (insertion) order, and whether the
  connection to the store is up: every operation on an unreachable store raises.\<close>

record db =
  users :: "User list"
  projects :: "Project list"
  online :: bool

text \<open>The payload \<open>{ userId, username }\<close> that login signs and \<open>jwt.verify\<close> yields.\<close>

record claims =
  claim_userId :: string
  claim_username :: jsval

text \<open>What a request carries: the \<open>Authorization\<close> header (\<open>None\<close> when the request
  has none), the route parameter \<open>:projectId\<close>, the object that \<open>express.json()\<close>
  leaves in \<open>req.body\<close> (without properties when the request has no JSON body), and
  \<open>req.user\<close> once the middleware has set it.\<close>

record request =
  authorization :: "string option"
  projectId :: string
  body :: "string \<rightharpoonup> jsval"
  user :: "claims option"

text \<open>What is ambient when a request is served: \<open>process.env.JWT_SECRET\<close>, the clock,
  the ObjectId a new document would receive, and the randomness bcrypt salts with.\<close>

record env =
  JWT_SECRET :: "string option"
  clock :: nat
  fresh_oid :: oid
  entropy :: nat

text \<open>
  The external packages, as the functions the handlers call. bcryptjs and
  jsonwebtoken are opaque: \<open>bcrypt_hash data rounds entropy\<close>,
  \<open>bcrypt_compare data digest\<close>, \<open>jwt_sign payload secret expiresIn now\<close> and
  \<open>jwt_verify token secret now\<close>, each with the error it may raise. Of Mongoose the
  parts that depend on its version are parameters too: casting a route parameter
  to an ObjectId, casting a value that is neither a string nor \<open>null\<close>/\<open>undefined\<close>
  to a \<open>String\<close> path, and casting such a value in a query filter.
\<close>

record lib =
  bcrypt_hash :: "jsval \<Rightarrow> nat \<Rightarrow> nat \<Rightarrow> exn + string"
  bcrypt_compare :: "jsval \<Rightarrow> jsval \<Rightarrow> exn + bool"
  jwt_sign :: "claims \<Rightarrow> string option \<Rightarrow> string \<Rightarrow> nat \<Rightarrow> exn + string"
  jwt_verify :: "string \<Rightarrow> string option \<Rightarrow> nat \<Rightarrow> exn + claims"
  castObjectId :: "string \<Rightarrow> oid option"
  cast_other :: "jsval \<Rightarrow> string option"
  query_cast :: "jsval \<Rightarrow> (jsval \<Rightarrow> bool) option"

text \<open>Response bodies: \<open>res.sendStatus\<close>, \<open>{ message }\<close>, \<open>{ error }\<close> with a fixed
  text or with \<open>error.message\<close> of a caught exception, \<open>{ token }\<close>, a project (or
  \<open>null\<close>) and a list of projects.\<close>

datatype reply =
    SendStatus
  | Message string
  | ErrorText string
  | ErrorOf exn
  | Token string
  | ProjectJson "Project option"
  | ProjectsJson "Project list"

record response =
  status :: nat
  json :: reply

definition respond :: "nat \<Rightarrow> reply \<Rightarrow> response" where
  "respond s b = \<lparr>status = s, json = b\<rparr>"

section \<open>Mongoose operations\<close>

text \<open>Setting a \<open>String\<close> path: \<open>undefined\<close> leaves the path unset, \<open>null\<close> and strings
  are kept, anything else is cast or recorded as a validation error of that path.\<close>

definition castString :: "lib \<Rightarrow> string \<Rightarrow> jsval \<Rightarrow> exn + jsval" where
  "castString L path v =
     (case v of
        JUndefined \<Rightarrow> Inr JUndefined
      | JNull \<Rightarrow> Inr JNull
      | JStr s \<Rightarrow> Inr (JStr s)
      | _ \<Rightarrow> (case cast_other L v of
                None \<Rightarrow> Inl (ValidationError path)
              | Some s \<Rightarrow> Inr (JStr s)))"

text \<open>\<open>new User({ username, email, password })\<close>: the document, or the validation
  error that \<open>save\<close> will raise.\<close>

definition new_User :: "lib \<Rightarrow> env \<Rightarrow> jsval \<Rightarrow> jsval \<Rightarrow> jsval \<Rightarrow> exn + User" where
  "new_User L E un em pw =
     (case castString L ''username'' un of
        Inl e \<Rightarrow> Inl e
      | Inr un' \<Rightarrow>
     (case castString L ''email'' em of
        Inl e \<Rightarrow> Inl e
      | Inr em' \<Rightarrow>
     (case castString L ''password'' pw of
        Inl e \<Rightarrow> Inl e
      | Inr pw' \<Rightarrow>
          Inr \<lparr>u_id = fresh_oid E, username = un', email = em', password = pw'\<rparr>)))"

definition new_Project ::
  "lib \<Rightarrow> env \<Rightarrow> jsval \<Rightarrow> jsval \<Rightarrow> jsval \<Rightarrow> jsval \<Rightarrow> jsval \<Rightarrow> exn + Project" where
  "new_Project L E nm uid html css js =
     (case castString L ''name'' nm of
        Inl e \<Rightarrow> Inl e
      | Inr nm' \<Rightarrow>
     (case castString L ''userId'' uid of
        Inl e \<Rightarrow> Inl e
      | Inr uid' \<Rightarrow>
     (case castString L ''htmlCode'' html of
        Inl e \<Rightarrow> Inl e
      | Inr html' \<Rightarrow>
     (case castString L ''cssCode'' css of
        Inl e \<Rightarrow> Inl e
      | Inr css' \<Rightarrow>
     (case castString L ''jsCode'' js of
        Inl e \<Rightarrow> Inl e
      | Inr js' \<Rightarrow>
          Inr \<lparr>p_id = fresh_oid E, name = nm', userId = uid',
               htmlCode = html', cssCode = css', jsCode = js'\<rparr>)))))"

text \<open>\<open>save()\<close> of a new document: validation first, then the insert, which the
  store refuses when it is unreachable or the \<open>_id\<close> is taken. It resolves to the
  document itself.\<close>

definition save_new_User :: "exn + User \<Rightarrow> db \<Rightarrow> exn + User \<times> db" where
  "save_new_User doc d =
     (case doc of
        Inl e \<Rightarrow> Inl e
      | Inr u \<Rightarrow>
          if online d then
            if u_id u \<in> set (map u_id (users d)) then Inl (DuplicateKey (u_id u))
            else Inr (u, d\<lparr>users := users d @ [u]\<rparr>)
          else Inl MongoError)"

definition save_new_Project :: "exn + Project \<Rightarrow> db \<Rightarrow> exn + Project \<times> db" where
  "save_new_Project doc d =
     (case doc of
        Inl e \<Rightarrow> Inl e
      | Inr p \<Rightarrow>
          if online d then
            if p_id p \<in> set (map p_id (projects d)) then Inl (DuplicateKey (p_id p))
            else Inr (p, d\<lparr>projects := projects d @ [p]\<rparr>)
          else Inl MongoError)"

text \<open>A filter value on a \<open>String\<close> path: a string matches by equality.\<close>

definition filter_String :: "lib \<Rightarrow> jsval \<Rightarrow> (jsval \<Rightarrow> bool) option" where
  "filter_String L v = (case v of JStr s \<Rightarrow> Some (\<lambda>x. x = JStr s) | _ \<Rightarrow> query_cast L v)"

text \<open>\<open>User.findOne({ email })\<close>: the first match in natural order, or \<open>null\<close>.\<close>

definition User_findOne_email :: "lib \<Rightarrow> jsval \<Rightarrow> db \<Rightarrow> exn + User option" where
  "User_findOne_email L v d =
     (case filter_String L v of
        None \<Rightarrow> Inl (CastError ''email'')
      | Some P \<Rightarrow>
          if online d then Inr (find (\<lambda>u. P (email u)) (users d))
          else Inl MongoError)"

text \<open>\<open>Project.find({ userId })\<close>.\<close>

definition Project_find_userId :: "lib \<Rightarrow> jsval \<Rightarrow> db \<Rightarrow> exn + Project list" where
  "Project_find_userId L v d =
     (case filter_String L v of
        None \<Rightarrow> Inl (CastError ''userId'')
      | Some P \<Rightarrow>
          if online d then Inr (filter (\<lambda>p. P (userId p)) (projects d))
          else Inl MongoError)"

text \<open>
  \<open>.sort({ createdAt: -1 })\<close>: descending by the value stored under the path
  \<open>createdAt\<close>, documents with equal keys staying in the order the store yields them.
  A document has the paths its schema declares and \<open>_id\<close>; any other path is missing.
  \<open>ProjectSchema\<close> declares no \<open>createdAt\<close> path and no \<open>timestamps\<close> option. Stored
  values are strings, \<open>null\<close> or missing; a missing value and \<open>null\<close> sort below every
  string.
\<close>

definition Project_path :: "Project \<Rightarrow> string \<Rightarrow> jsval" where
  "Project_path p k =
     (if k = ''_id'' then JStr (p_id p)
      else if k = ''name'' then name p
      else if k = ''userId'' then userId p
      else if k = ''htmlCode'' then htmlCode p
      else if k = ''cssCode'' then cssCode p
      else if k = ''jsCode'' then jsCode p
      else JUndefined)"

definition bson_key :: "jsval \<Rightarrow> string option" where
  "bson_key v = (case v of JStr s \<Rightarrow> Some s | _ \<Rightarrow> None)"

fun insert_desc :: "('a \<Rightarrow> 'k::linorder) \<Rightarrow> 'a \<Rightarrow> 'a list \<Rightarrow> 'a list" where
  "insert_desc k x [] = [x]"
| "insert_desc k x (y # ys) = (if k y \<le> k x then x # y # ys else y # insert_desc k x ys)"

definition sort_desc :: "string \<Rightarrow> Project list \<Rightarrow> Project list" where
  "sort_desc path ps = foldr (insert_desc (\<lambda>p. bson_key (Project_path p path))) ps []"

text \<open>\<open>Project.findById(id)\<close>: the parameter is cast to an ObjectId first.\<close>

definition Project_findById :: "lib \<Rightarrow> string \<Rightarrow> db \<Rightarrow> exn + Project option" where
  "Project_findById L pid d =
     (case castObjectId L pid of
        None \<Rightarrow> Inl (CastError ''_id'')
      | Some i \<Rightarrow>
          if online d then Inr (find (\<lambda>p. p_id p = i) (projects d))
          else Inl MongoError)"

text \<open>Removing, and replacing, the first document with a given \<open>_id\<close>.\<close>

fun remove_id :: "oid \<Rightarrow> Project list \<Rightarrow> Project list" where
  "remove_id i [] = []"
| "remove_id i (p # ps) = (if p_id p = i then ps else p # remove_id i ps)"

fun replace_id :: "Project \<Rightarrow> Project list \<Rightarrow> Project list" where
  "replace_id q [] = []"
| "replace_id q (p # ps) = (if p_id p = p_id q then q # ps else p # replace_id q ps)"

text \<open>\<open>Project.findByIdAndDelete(id)\<close>: the removed document, or \<open>null\<close>.\<close>

definition Project_findByIdAndDelete ::
  "lib \<Rightarrow> string \<Rightarrow> db \<Rightarrow> exn + (Project option \<times> db)" where
  "Project_findByIdAndDelete L pid d =
     (case castObjectId L pid of
        None \<Rightarrow> Inl (CastError ''_id'')
      | Some i \<Rightarrow>
          if online d then Inr (find (\<lambda>p. p_id p = i) (projects d),
                    d\<lparr>projects := remove_id i (projects d)\<rparr>)
          else Inl MongoError)"

text \<open>\<open>save()\<close> of a document that was loaded and modified.\<close>

definition save_Project :: "exn + Project \<Rightarrow> db \<Rightarrow> exn + Project \<times> db" where
  "save_Project doc d =
     (case doc of
        Inl e \<Rightarrow> Inl e
      | Inr p \<Rightarrow>
          if online d then Inr (p, d\<lparr>projects := replace_id p (projects d)\<rparr>)
          else Inl MongoError)"

section \<open>Route handlers\<close>

text \<open>\<open>POST /register\<close> (lines 55-68).\<close>

definition register :: "lib \<Rightarrow> env \<Rightarrow> request \<Rightarrow> db \<Rightarrow> response \<times> db" where
  "register L E req d =
     (case bcrypt_hash L (field (body req) ''password'') 10 (entropy E) of
        Inl error \<Rightarrow> (respond 400 (ErrorOf error), d)
      | Inr hashedPassword \<Rightarrow>
          (case save_new_User
                  (new_User L E (field (body req) ''username'') (field (body req) ''email'')
                     (JStr hashedPassword)) d of
             Inl error \<Rightarrow> (respond 400 (ErrorOf error), d)
           | Inr (saved, d') \<Rightarrow> (respond 201 (Message ''User registered successfully''), d')))"

text \<open>\<open>POST /login\<close> (lines 71-93).\<close>

definition login :: "lib \<Rightarrow> env \<Rightarrow> request \<Rightarrow> db \<Rightarrow> response \<times> db" where
  "login L E req d =
     (case User_findOne_email L (field (body req) ''email'') d of
        Inl error \<Rightarrow> (respond 400 (ErrorOf error), d)
      | Inr None \<Rightarrow> (respond 404 (ErrorText ''User not found''), d)
      | Inr (Some u) \<Rightarrow>
          (case bcrypt_compare L (field (body req) ''password'') (password u) of
             Inl error \<Rightarrow> (respond 400 (ErrorOf error), d)
           | Inr isMatch \<Rightarrow>
               if \<not> isMatch then (respond 401 (ErrorText ''Invalid credentials''), d)
               else
                 (case jwt_sign L \<lparr>claim_userId = u_id u, claim_username = username u\<rparr>
                         (JWT_SECRET E) ''1h'' (clock E) of
                    Inl error \<Rightarrow> (respond 400 (ErrorOf error), d)
                  | Inr token \<Rightarrow> (respond 200 (Token token), d))))"

text \<open>The middleware \<open>authenticateToken\<close> (lines 101-112); \<open>next\<close> is the route handler.\<close>

definition authenticateToken ::
  "lib \<Rightarrow> env \<Rightarrow> (request \<Rightarrow> db \<Rightarrow> response \<times> db) \<Rightarrow> request \<Rightarrow> db \<Rightarrow> response \<times> db" where
  "authenticateToken L E next req d =
     (case authorization req of
        None \<Rightarrow> (respond 401 SendStatus, d)
      | Some token \<Rightarrow>
          (case jwt_verify L token (JWT_SECRET E) (clock E) of
             Inl err \<Rightarrow> (respond 403 SendStatus, d)
           | Inr u \<Rightarrow> next (req\<lparr>user := Some u\<rparr>) d))"

text \<open>\<open>GET /projects\<close> (lines 115-124). Reading \<open>req.user.userId\<close> of an unset
  \<open>req.user\<close> is a \<open>TypeError\<close> inside the \<open>try\<close>.\<close>

definition get_projects :: "lib \<Rightarrow> env \<Rightarrow> request \<Rightarrow> db \<Rightarrow> response \<times> db" where
  "get_projects L E req d =
     (case user req of
        None \<Rightarrow> (respond 500 (ErrorOf TypeError), d)
      | Some u \<Rightarrow>
          (case Project_find_userId L (JStr (claim_userId u)) d of
             Inl error \<Rightarrow> (respond 500 (ErrorOf error), d)
           | Inr ps \<Rightarrow> (respond 200 (ProjectsJson (sort_desc ''createdAt'' ps)), d)))"

text \<open>\<open>GET /project/:projectId\<close> (lines 127-134).\<close>

definition get_project :: "lib \<Rightarrow> env \<Rightarrow> request \<Rightarrow> db \<Rightarrow> response \<times> db" where
  "get_project L E req d =
     (case Project_findById L (projectId req) d of
        Inl error \<Rightarrow> (respond 500 (ErrorOf error), d)
      | Inr project \<Rightarrow> (respond 200 (ProjectJson project), d))"

text \<open>\<open>DELETE /project/:projectId\<close> (lines 137-149).\<close>

definition delete_project :: "lib \<Rightarrow> env \<Rightarrow> request \<Rightarrow> db \<Rightarrow> response \<times> db" where
  "delete_project L E req d =
     (case Project_findByIdAndDelete L (projectId req) d of
        Inl error \<Rightarrow> (respond 500 (ErrorOf error), d)
      | Inr (project, d') \<Rightarrow>
          (case project of
             None \<Rightarrow> (respond 404 (Message ''Project not found''), d')
           | Some p \<Rightarrow> (respond 200 (Message ''Project deleted successfully''), d')))"

text \<open>\<open>POST /project\<close> (lines 152-166).\<close>

definition create_project :: "lib \<Rightarrow> env \<Rightarrow> request \<Rightarrow> db \<Rightarrow> response \<times> db" where
  "create_project L E req d =
     (case user req of
        None \<Rightarrow> (respond 400 (ErrorOf TypeError), d)
      | Some u \<Rightarrow>
          (case save_new_Project
                  (new_Project L E (field (body req) ''name'') (JStr (claim_userId u))
                     (field (body req) ''htmlCode'') (field (body req) ''cssCode'')
                     (field (body req) ''jsCode'')) d of
             Inl error \<Rightarrow> (respond 400 (ErrorOf error), d)
           | Inr (newProject, d') \<Rightarrow> (respond 201 (ProjectJson (Some newProject)), d')))"

text \<open>The three assignments of lines 181-183 on the loaded document.\<close>

definition set_code :: "lib \<Rightarrow> Project \<Rightarrow> jsval \<Rightarrow> jsval \<Rightarrow> jsval \<Rightarrow> exn + Project" where
  "set_code L project html css js =
     (case castString L ''htmlCode'' (js_or html (JStr '''')) of
        Inl e \<Rightarrow> Inl e
      | Inr html' \<Rightarrow>
     (case castString L ''cssCode'' (js_or css (JStr '''')) of
        Inl e \<Rightarrow> Inl e
      | Inr css' \<Rightarrow>
     (case castString L ''jsCode'' (js_or js (JStr '''')) of
        Inl e \<Rightarrow> Inl e
      | Inr js' \<Rightarrow>
          Inr (project\<lparr>htmlCode := html', cssCode := css', jsCode := js'\<rparr>))))"

text \<open>\<open>PUT /project/:projectId\<close> (lines 169-193).\<close>

definition update_project :: "lib \<Rightarrow> env \<Rightarrow> request \<Rightarrow> db \<Rightarrow> response \<times> db" where
  "update_project L E req d =
     (case Project_findById L (projectId req) d of
        Inl error \<Rightarrow> (respond 500 (ErrorText ''Failed to save project code''), d)
      | Inr None \<Rightarrow> (respond 404 (ErrorText ''Project not found''), d)
      | Inr (Some project) \<Rightarrow>
          (case save_Project
                  (set_code L project (field (body req) ''htmlCode'')
                     (field (body req) ''cssCode'') (field (body req) ''jsCode'')) d of
             Inl error \<Rightarrow> (respond 500 (ErrorText ''Failed to save project code''), d)
           | Inr (project', d') \<Rightarrow> (respond 200 (ProjectJson (Some project')), d')))"

text \<open>The protected routes: the middleware in front of each handler.\<close>

definition GET_projects :: "lib \<Rightarrow> env \<Rightarrow> request \<Rightarrow> db \<Rightarrow> response \<times> db" where
  "GET_projects L E = authenticateToken L E (get_projects L E)"

definition GET_project :: "lib \<Rightarrow> env \<Rightarrow> request \<Rightarrow> db \<Rightarrow> response \<times> db" where
  "GET_project L E = authenticateToken L E (get_project L E)"

definition DELETE_project :: "lib \<Rightarrow> env \<Rightarrow> request \<Rightarrow> db \<Rightarrow> response \<times> db" where
  "DELETE_project L E = authenticateToken L E (delete_project L E)"

definition POST_project :: "lib \<Rightarrow> env \<Rightarrow> request \<Rightarrow> db \<Rightarrow> response \<times> db" where
  "POST_project L E = authenticateToken L E (create_project L E)"

definition PUT_project :: "lib \<Rightarrow> env \<Rightarrow> request \<Rightarrow> db \<Rightarrow> response \<times> db" where
  "PUT_project L E = authenticateToken L E (update_project L E)"

section \<open>An example instance\<close>

text \<open>
  A concrete instance of the external packages, a store and requests, on which the
  handlers are evaluated below. The digest of \<open>s\<close> is \<open>#s\<close>, the token for a user id
  \<open>i\<close> is \<open>tok-i\<close>, and an ObjectId is a string of 24 lower-case hexadecimal digits.
  Nothing is cast that is not a string.
\<close>

definition example_lib :: lib where
  "example_lib =
     \<lparr>bcrypt_hash = (\<lambda>v rounds ent.
          case v of JStr s \<Rightarrow> Inr (''#'' @ s) | _ \<Rightarrow> Inl (Error ''Illegal arguments'')),
      bcrypt_compare = (\<lambda>v h.
          case v of
            JStr s \<Rightarrow> (case h of JStr k \<Rightarrow> Inr (k = ''#'' @ s)
                         | _ \<Rightarrow> Inl (Error ''Illegal arguments''))
          | _ \<Rightarrow> Inl (Error ''Illegal arguments'')),
      jwt_sign = (\<lambda>c secret expiresIn now.
          case secret of
            None \<Rightarrow> Inl (Error ''secretOrPrivateKey must have a value'')
          | Some k \<Rightarrow> Inr (''tok-'' @ claim_userId c)),
      jwt_verify = (\<lambda>t secret now.
          if take 4 t = ''tok-''
          then Inr \<lparr>claim_userId = drop 4 t, claim_username = JNull\<rparr>
          else Inl (Error ''jwt malformed'')),
      castObjectId = (\<lambda>s.
          if length s = 24 \<and> list_all (\<lambda>c. c \<in> set ''0123456789abcdef'') s
          then Some s else None),
      cast_other = (\<lambda>v. None),
      query_cast = (\<lambda>v. None)\<rparr>"

definition example_env :: "oid \<Rightarrow> env" where
  "example_env i = \<lparr>JWT_SECRET = Some ''s3cret'', clock = 0, fresh_oid = i, entropy = 0\<rparr>"

definition example_req :: "string option \<Rightarrow> string \<Rightarrow> (string \<rightharpoonup> jsval) \<Rightarrow> request" where
  "example_req h i b = \<lparr>authorization = h, projectId = i, body = b, user = None\<rparr>"

text \<open>Two users, three project ids, and the ids that two newly created documents get.\<close>

definition alice :: oid where
  "alice = ''65a1000000000000000000a1''"

definition bob :: oid where
  "bob = ''65a1000000000000000000b2''"

definition site_id :: oid where
  "site_id = ''65b2000000000000000000c3''"

definition blog_id :: oid where
  "blog_id = ''65b2000000000000000000d4''"

definition other_id :: oid where
  "other_id = ''65b2000000000000000000e5''"

definition new_id :: oid where
  "new_id = ''65c3000000000000000000f6''"

definition next_id :: oid where
  "next_id = ''65c3000000000000000000f7''"

definition empty_db :: db where
  "empty_db = \<lparr>users = [], projects = [], online = True\<rparr>"

definition site :: Project where
  "site = \<lparr>p_id = site_id, name = JStr ''Site'', userId = JStr alice,
            htmlCode = JStr ''<h1>x</h1>'', cssCode = JStr ''h1 {}'', jsCode = JStr ''f()''\<rparr>"

definition blog :: Project where
  "blog = \<lparr>p_id = blog_id, name = JStr ''Blog'', userId = JStr bob,
            htmlCode = JStr ''<p>y</p>'', cssCode = JStr '''', jsCode = JStr ''''\<rparr>"

definition example_db :: db where
  "example_db =
     \<lparr>users = [\<lparr>u_id = bob, username = JStr ''bob'', email = JStr ''b@x.org'',
                password = JStr ''#hunter2''\<rparr>],
      projects = [site, blog],
      online = True\<rparr>"

section \<open>Basic facts\<close>

lemmas eval_defs =
  example_lib_def example_env_def example_req_def empty_db_def example_db_def
  alice_def bob_def site_id_def blog_id_def other_id_def new_id_def next_id_def
  site_def blog_def
  GET_projects_def GET_project_def DELETE_project_def POST_project_def PUT_project_def
  authenticateToken_def get_projects_def get_project_def delete_project_def
  create_project_def update_project_def register_def login_def set_code_def
  Project_findById_def Project_findByIdAndDelete_def Project_find_userId_def
  User_findOne_email_def filter_String_def save_Project_def save_new_Project_def
  save_new_User_def new_Project_def new_User_def castString_def field_def js_or_def
  respond_def sort_desc_def bson_key_def Project_path_def

lemma castString_simps:
  "castString L path JUndefined = Inr JUndefined"
  "castString L path JNull = Inr JNull"
  "castString L path (JStr s) = Inr (JStr s)"
  by (simp_all add: castString_def)

lemma field_simps:
  "b k = None \<Longrightarrow> field b k = JUndefined"
  "b k = Some v \<Longrightarrow> field b k = v"
  by (simp_all add: field_def)

lemma field_upd_other: "k' \<noteq> k \<Longrightarrow> field (b(k \<mapsto> v)) k' = field b k'"
  by (simp add: field_def)

lemma js_or_absent: "js_or JUndefined b = b"
  by (simp add: js_or_def)

subsection \<open>The middleware\<close>

lemma authenticateToken_accept:
  "authorization req = Some token \<Longrightarrow> jwt_verify L token (JWT_SECRET E) (clock E) = Inr u \<Longrightarrow>
     authenticateToken L E handler req d = handler (req\<lparr>user := Some u\<rparr>) d"
  by (simp add: authenticateToken_def)

lemma authenticateToken_status:
  "status (fst (authenticateToken L E handler req d)) \<notin> {401, 403} \<Longrightarrow>
     \<exists>token u. authorization req = Some token \<and>
       jwt_verify L token (JWT_SECRET E) (clock E) = Inr u \<and>
       authenticateToken L E handler req d = handler (req\<lparr>user := Some u\<rparr>) d"
  by (auto simp: authenticateToken_def respond_def split: option.splits sum.splits)

subsection \<open>Handlers that never read \<open>req.user\<close>\<close>

lemma get_project_ignores_user: "get_project L E (req\<lparr>user := x\<rparr>) d = get_project L E req d"
  by (simp add: get_project_def)

lemma delete_project_ignores_user:
  "delete_project L E (req\<lparr>user := x\<rparr>) d = delete_project L E req d"
  by (simp add: delete_project_def)

lemma update_project_ignores_user:
  "update_project L E (req\<lparr>user := x\<rparr>) d = update_project L E req d"
  by (simp add: update_project_def split: sum.splits option.splits)

lemma get_project_ignores_header:
  "get_project L E (req\<lparr>authorization := h\<rparr>) d = get_project L E req d"
  by (simp add: get_project_def)

lemma delete_project_ignores_header:
  "delete_project L E (req\<lparr>authorization := h\<rparr>) d = delete_project L E req d"
  by (simp add: delete_project_def)

lemma update_project_ignores_header:
  "update_project L E (req\<lparr>authorization := h\<rparr>) d = update_project L E req d"
  by (simp add: update_project_def split: sum.splits option.splits)

subsection \<open>Lookup by id\<close>

lemma find_p_id: "find (\<lambda>q. p_id q = i) ps = Some p \<Longrightarrow> p_id p = i"
  by (induction ps) (auto split: if_splits)

lemma find_replace_id:
  "find (\<lambda>x. p_id x = p_id q) ps = Some p \<Longrightarrow>
     find (\<lambda>x. p_id x = p_id q) (replace_id q ps) = Some q"
  by (induction ps) (auto split: if_splits)

lemma replace_id_rel:
  "find (\<lambda>x. p_id x = p_id q) ps = Some p0 \<Longrightarrow>
     list_all2 (\<lambda>p p'. p' = p \<or> (p = p0 \<and> p' = q)) ps (replace_id q ps)"
proof (induction ps)
  case Nil
  then show ?case by simp
next
  case (Cons a ps)
  show ?case
  proof (cases "p_id a = p_id q")
    case True
    with Cons.prems have "a = p0" by simp
    with True show ?thesis by (simp add: list_all2_refl)
  next
    case False
    with Cons show ?thesis by simp
  qed
qed

lemma find_remove_id:
  "distinct (map p_id ps) \<Longrightarrow> find (\<lambda>q. p_id q = i) (remove_id i ps) = None"
proof (induction ps)
  case Nil
  then show ?case by simp
next
  case (Cons a ps)
  show ?case
  proof (cases "p_id a = i")
    case True
    with Cons.prems have "i \<notin> p_id ` set ps" by simp
    then have "\<not> (\<exists>x. x \<in> set ps \<and> p_id x = i)" by blast
    with True show ?thesis by (simp add: find_None_iff)
  next
    case False
    with Cons show ?thesis by simp
  qed
qed

lemma get_project_absent:
  "castObjectId L (projectId req) = Some i \<Longrightarrow> online d \<Longrightarrow>
     find (\<lambda>q. p_id q = i) (projects d) = None \<Longrightarrow>
     get_project L E req d = (respond 200 (ProjectJson None), d)"
  by (simp add: get_project_def Project_findById_def)

lemma get_project_status: "status (fst (get_project L E req d)) \<in> {200, 500}"
  by (simp add: get_project_def respond_def split: sum.splits)

lemma get_after_delete:
  assumes "distinct (map p_id (projects d))"
    and "delete_project L E req d = (r, d')"
    and "status r = 200"
  shows "get_project L E req d' = (respond 200 (ProjectJson None), d')"
proof -
  from assms(2,3) obtain i where
    i: "castObjectId L (projectId req) = Some i" and o: "online d" and
    d': "d' = d\<lparr>projects := remove_id i (projects d)\<rparr>"
    by (auto simp: delete_project_def Project_findByIdAndDelete_def respond_def
        split: option.splits if_splits)
  have "find (\<lambda>q. p_id q = i) (projects d') = None"
    using assms(1) by (simp add: d' find_remove_id)
  with i o show ?thesis
    by (intro get_project_absent) (simp_all add: d')
qed

subsection \<open>Update\<close>

lemma set_code_Inr:
  assumes "set_code L p h c j = Inr p'"
  shows "castString L ''htmlCode'' (js_or h (JStr '''')) = Inr (htmlCode p')"
    and "castString L ''cssCode'' (js_or c (JStr '''')) = Inr (cssCode p')"
    and "castString L ''jsCode'' (js_or j (JStr '''')) = Inr (jsCode p')"
    and "p' = p\<lparr>htmlCode := htmlCode p', cssCode := cssCode p', jsCode := jsCode p'\<rparr>"
  using assms by (auto simp: set_code_def split: sum.splits)

lemma set_code_p_id: "set_code L p h c j = Inr p' \<Longrightarrow> p_id p' = p_id p"
  by (auto simp: set_code_def split: sum.splits)

lemma update_project_200:
  assumes "status (fst (update_project L E req d)) = 200"
  shows "\<exists>i p p'. castObjectId L (projectId req) = Some i \<and> online d \<and>
           find (\<lambda>q. p_id q = i) (projects d) = Some p \<and>
           set_code L p (field (body req) ''htmlCode'') (field (body req) ''cssCode'')
             (field (body req) ''jsCode'') = Inr p' \<and>
           update_project L E req d =
             (respond 200 (ProjectJson (Some p')), d\<lparr>projects := replace_id p' (projects d)\<rparr>)"
  using assms
  by (auto simp: update_project_def Project_findById_def save_Project_def respond_def
      split: sum.splits option.splits if_splits)

lemma PUT_project_200:
  assumes "status (fst (PUT_project L E req d)) = 200"
  shows "PUT_project L E req d = update_project L E req d"
proof -
  from assms have "status (fst (authenticateToken L E (update_project L E) req d)) \<notin> {401, 403}"
    by (simp add: PUT_project_def)
  from authenticateToken_status [OF this] show ?thesis
    by (auto simp: PUT_project_def update_project_ignores_user)
qed

subsection \<open>Create\<close>

lemma new_Project_Inr:
  assumes "new_Project L E nm uid h c j = Inr p"
  shows "p_id p = fresh_oid E"
    and "castString L ''name'' nm = Inr (name p)"
    and "castString L ''userId'' uid = Inr (userId p)"
    and "castString L ''htmlCode'' h = Inr (htmlCode p)"
    and "castString L ''cssCode'' c = Inr (cssCode p)"
    and "castString L ''jsCode'' j = Inr (jsCode p)"
  using assms by (auto simp: new_Project_def split: sum.splits)

lemma create_project_201:
  assumes "status (fst (create_project L E req d)) = 201"
  shows "\<exists>u p. user req = Some u \<and>
           new_Project L E (field (body req) ''name'') (JStr (claim_userId u))
             (field (body req) ''htmlCode'') (field (body req) ''cssCode'')
             (field (body req) ''jsCode'') = Inr p \<and>
           create_project L E req d =
             (respond 201 (ProjectJson (Some p)), d\<lparr>projects := projects d @ [p]\<rparr>)"
  using assms
  by (auto simp: create_project_def save_new_Project_def respond_def
      split: sum.splits option.splits if_splits)

lemma POST_project_accept:
  assumes "authorization req = Some token"
    and "jwt_verify L token (JWT_SECRET E) (clock E) = Inr u"
  shows "POST_project L E req d = create_project L E (req\<lparr>user := Some u\<rparr>) d"
  using assms by (simp add: POST_project_def authenticateToken_accept)

lemma create_project_body_irrelevant:
  assumes "k \<notin> {''name'', ''htmlCode'', ''cssCode'', ''jsCode''}"
  shows "create_project L E (req\<lparr>body := (body req)(k \<mapsto> v), user := x\<rparr>) d =
           create_project L E (req\<lparr>user := x\<rparr>) d"
proof -
  from assms have "''name'' \<noteq> k" "''htmlCode'' \<noteq> k" "''cssCode'' \<noteq> k" "''jsCode'' \<noteq> k"
    by auto
  then show ?thesis
    by (simp add: create_project_def field_upd_other split: option.splits)
qed

subsection \<open>Login and list\<close>

lemma find_append_new:
  "\<forall>x \<in> set xs. \<not> P x \<Longrightarrow> P y \<Longrightarrow> find P (xs @ [y]) = Some y"
  by (induction xs) auto

lemma Project_path_createdAt: "bson_key (Project_path p ''createdAt'') = None"
  by (simp add: Project_path_def bson_key_def)

lemma insert_desc_createdAt:
  "insert_desc (\<lambda>p. bson_key (Project_path p ''createdAt'')) x xs = x # xs"
  by (cases xs) (simp_all add: Project_path_createdAt)

lemma sort_desc_createdAt: "sort_desc ''createdAt'' ps = ps"
  by (induction ps) (simp_all add: sort_desc_def insert_desc_createdAt)

lemma get_projects_result:
  "online d \<Longrightarrow> user req = Some u \<Longrightarrow>
     get_projects L E req d =
       (respond 200
          (ProjectsJson (filter (\<lambda>p. userId p = JStr (claim_userId u)) (projects d))), d)"
  by (simp add: get_projects_def Project_find_userId_def filter_String_def sort_desc_createdAt)

section \<open>Access to a project by id\<close>

text \<open>
  Claim C1. For any two authenticated callers, whatever user ids their verified tokens
  carry, \<open>GET\<close>, \<open>PUT\<close> and \<open>DELETE\<close> on \<open>/project/:projectId\<close> give the same response
  and the same store: the handlers never compare the caller's \<open>userId\<close> with the
  project's, so every authenticated user can read, modify and delete every project.
\<close>

theorem no_ownership_check:
  assumes "jwt_verify L t1 (JWT_SECRET E) (clock E) = Inr u1"
    and "jwt_verify L t2 (JWT_SECRET E) (clock E) = Inr u2"
  shows "GET_project L E (req\<lparr>authorization := Some t1\<rparr>) d =
           GET_project L E (req\<lparr>authorization := Some t2\<rparr>) d \<and>
         PUT_project L E (req\<lparr>authorization := Some t1\<rparr>) d =
           PUT_project L E (req\<lparr>authorization := Some t2\<rparr>) d \<and>
         DELETE_project L E (req\<lparr>authorization := Some t1\<rparr>) d =
           DELETE_project L E (req\<lparr>authorization := Some t2\<rparr>) d"
proof -
  have a: "authenticateToken L E handler (req\<lparr>authorization := Some t1\<rparr>) d =
             handler (req\<lparr>authorization := Some t1, user := Some u1\<rparr>) d"
    and b: "authenticateToken L E handler (req\<lparr>authorization := Some t2\<rparr>) d =
             handler (req\<lparr>authorization := Some t2, user := Some u2\<rparr>) d" for handler
    using assms by (simp_all add: authenticateToken_def)
  show ?thesis
    unfolding GET_project_def PUT_project_def DELETE_project_def a b
    by (simp add: get_project_ignores_user delete_project_ignores_user
        update_project_ignores_user get_project_ignores_header
        delete_project_ignores_header update_project_ignores_header)
qed

text \<open>Bob reads, overwrites and deletes Alice's project exactly as Alice would.\<close>

theorem no_ownership_check_witness:
  "jwt_verify example_lib (''tok-'' @ bob) (JWT_SECRET (example_env new_id))
     (clock (example_env new_id)) = Inr \<lparr>claim_userId = bob, claim_username = JNull\<rparr> \<and>
   jwt_verify example_lib (''tok-'' @ alice) (JWT_SECRET (example_env new_id))
     (clock (example_env new_id)) = Inr \<lparr>claim_userId = alice, claim_username = JNull\<rparr> \<and>
   userId site = JStr alice \<and>
   GET_project example_lib (example_env new_id)
     (example_req (Some (''tok-'' @ bob)) site_id Map.empty) example_db =
   GET_project example_lib (example_env new_id)
     (example_req (Some (''tok-'' @ alice)) site_id Map.empty) example_db \<and>
   PUT_project example_lib (example_env new_id)
     (example_req (Some (''tok-'' @ bob)) site_id Map.empty) example_db =
   PUT_project example_lib (example_env new_id)
     (example_req (Some (''tok-'' @ alice)) site_id Map.empty) example_db \<and>
   DELETE_project example_lib (example_env new_id)
     (example_req (Some (''tok-'' @ bob)) site_id Map.empty) example_db =
   DELETE_project example_lib (example_env new_id)
     (example_req (Some (''tok-'' @ alice)) site_id Map.empty) example_db \<and>
   GET_project example_lib (example_env new_id)
     (example_req (Some (''tok-'' @ bob)) site_id Map.empty) example_db =
     (respond 200 (ProjectJson (Some site)), example_db) \<and>
   DELETE_project example_lib (example_env new_id)
     (example_req (Some (''tok-'' @ bob)) site_id Map.empty) example_db =
     (respond 200 (Message ''Project deleted successfully''),
      example_db\<lparr>projects := [blog]\<rparr>)"
  using no_ownership_check [where L = example_lib and E = "example_env new_id"
      and ?t1.0 = "''tok-'' @ bob" and ?t2.0 = "''tok-'' @ alice"
      and ?u1.0 = "\<lparr>claim_userId = bob, claim_username = JNull\<rparr>"
      and ?u2.0 = "\<lparr>claim_userId = alice, claim_username = JNull\<rparr>"
      and req = "example_req None site_id Map.empty" and d = example_db]
  by (simp add: eval_defs)

text \<open>
  Claim C2. The claim is that \<open>GET /project/:projectId\<close> fails with NotFound for an id
  that is not in the store. The handler passes the result of \<open>findById\<close> to \<open>res.json\<close>
  without the \<open>if (!project)\<close> test of the \<open>DELETE\<close> and \<open>PUT\<close> handlers: for an id
  that no project has, and for the id of a project that was just deleted, it answers
  200 with the body \<open>null\<close> (in general: \<open>get_project_absent\<close>, \<open>get_after_delete\<close>).
\<close>

theorem get_missing_project_returns_null:
  "GET_project example_lib (example_env new_id)
     (example_req (Some (''tok-'' @ alice)) other_id Map.empty) example_db =
     (respond 200 (ProjectJson None), example_db) \<and>
   DELETE_project example_lib (example_env new_id)
     (example_req (Some (''tok-'' @ alice)) site_id Map.empty) example_db =
     (respond 200 (Message ''Project deleted successfully''),
      example_db\<lparr>projects := [blog]\<rparr>) \<and>
   GET_project example_lib (example_env new_id)
     (example_req (Some (''tok-'' @ alice)) site_id Map.empty)
     (example_db\<lparr>projects := [blog]\<rparr>) =
     (respond 200 (ProjectJson None), example_db\<lparr>projects := [blog]\<rparr>) \<and>
   DELETE_project example_lib (example_env new_id)
     (example_req (Some (''tok-'' @ alice)) other_id Map.empty) example_db =
     (respond 404 (Message ''Project not found''), example_db)"
  by (simp add: eval_defs)

section \<open>Update\<close>

text \<open>
  Claim C3. For an existing project, a \<open>PUT /project/:projectId\<close> whose body has none
  of \<open>htmlCode\<close>, \<open>cssCode\<close>, \<open>jsCode\<close> answers 200 and stores the empty string in all
  three fields; and whenever an update succeeds, each of the three fields that is
  absent from the body is stored as the empty string.
\<close>

theorem update_clears_absent_fields:
  assumes "authorization req = Some token"
    and "jwt_verify L token (JWT_SECRET E) (clock E) = Inr u"
    and "castObjectId L (projectId req) = Some i"
    and "online d"
    and "find (\<lambda>q. p_id q = i) (projects d) = Some p"
  shows "(body req ''htmlCode'' = None \<and> body req ''cssCode'' = None \<and>
          body req ''jsCode'' = None \<longrightarrow>
            PUT_project L E req d =
              (respond 200 (ProjectJson (Some
                 (p\<lparr>htmlCode := JStr '''', cssCode := JStr '''', jsCode := JStr ''''\<rparr>))),
               d\<lparr>projects := replace_id
                 (p\<lparr>htmlCode := JStr '''', cssCode := JStr '''', jsCode := JStr ''''\<rparr>)
                 (projects d)\<rparr>)) \<and>
         (status (fst (PUT_project L E req d)) = 200 \<longrightarrow>
            (\<exists>p'. json (fst (PUT_project L E req d)) = ProjectJson (Some p') \<and>
               find (\<lambda>q. p_id q = i) (projects (snd (PUT_project L E req d))) = Some p' \<and>
               (body req ''htmlCode'' = None \<longrightarrow> htmlCode p' = JStr '''') \<and>
               (body req ''cssCode'' = None \<longrightarrow> cssCode p' = JStr '''') \<and>
               (body req ''jsCode'' = None \<longrightarrow> jsCode p' = JStr '''')))"
proof -
  have eq: "PUT_project L E req d = update_project L E req d"
    using assms(1,2)
    by (simp add: PUT_project_def authenticateToken_accept update_project_ignores_user)
  have fb: "Project_findById L (projectId req) d = Inr (Some p)"
    using assms(3,4,5) by (simp add: Project_findById_def)
  have A: "update_project L E req d =
              (respond 200 (ProjectJson (Some
                 (p\<lparr>htmlCode := JStr '''', cssCode := JStr '''', jsCode := JStr ''''\<rparr>))),
               d\<lparr>projects := replace_id
                 (p\<lparr>htmlCode := JStr '''', cssCode := JStr '''', jsCode := JStr ''''\<rparr>)
                 (projects d)\<rparr>)"
    if "body req ''htmlCode'' = None" "body req ''cssCode'' = None" "body req ''jsCode'' = None"
    using that assms(4)
    by (simp add: update_project_def fb set_code_def field_simps js_or_absent castString_simps
        save_Project_def)
  have B: "\<exists>p'. json (fst (update_project L E req d)) = ProjectJson (Some p') \<and>
               find (\<lambda>q. p_id q = i) (projects (snd (update_project L E req d))) = Some p' \<and>
               (body req ''htmlCode'' = None \<longrightarrow> htmlCode p' = JStr '''') \<and>
               (body req ''cssCode'' = None \<longrightarrow> cssCode p' = JStr '''') \<and>
               (body req ''jsCode'' = None \<longrightarrow> jsCode p' = JStr '''')"
    if ok: "status (fst (update_project L E req d)) = 200"
  proof -
    from update_project_200 [OF ok] assms(3,5) obtain p' where
      s: "set_code L p (field (body req) ''htmlCode'') (field (body req) ''cssCode'')
             (field (body req) ''jsCode'') = Inr p'" and
      r: "update_project L E req d =
             (respond 200 (ProjectJson (Some p')), d\<lparr>projects := replace_id p' (projects d)\<rparr>)"
      by auto
    have "p_id p = i" using assms(5) by (rule find_p_id)
    moreover have "p_id p' = p_id p" using s by (rule set_code_p_id)
    ultimately have i: "i = p_id p'" by simp
    have f: "find (\<lambda>q. p_id q = i) (replace_id p' (projects d)) = Some p'"
      unfolding i using assms(5) [unfolded i] by (rule find_replace_id)
    have h: "htmlCode p' = JStr ''''" if "body req ''htmlCode'' = None"
      using set_code_Inr(1) [OF s] that by (simp add: field_simps js_or_absent castString_simps)
    have c: "cssCode p' = JStr ''''" if "body req ''cssCode'' = None"
      using set_code_Inr(2) [OF s] that by (simp add: field_simps js_or_absent castString_simps)
    have j: "jsCode p' = JStr ''''" if "body req ''jsCode'' = None"
      using set_code_Inr(3) [OF s] that by (simp add: field_simps js_or_absent castString_simps)
    show ?thesis using f h c j by (simp add: r respond_def)
  qed
  show ?thesis unfolding eq using A B by blast
qed

text \<open>An empty body clears all three fields; a body with only \<open>jsCode\<close> clears the
  other two.\<close>

theorem update_clears_absent_fields_witness:
  "authorization (example_req (Some (''tok-'' @ alice)) site_id Map.empty) =
     Some (''tok-'' @ alice) \<and>
   jwt_verify example_lib (''tok-'' @ alice) (JWT_SECRET (example_env new_id))
     (clock (example_env new_id)) = Inr \<lparr>claim_userId = alice, claim_username = JNull\<rparr> \<and>
   castObjectId example_lib site_id = Some site_id \<and> online example_db \<and>
   find (\<lambda>q. p_id q = site_id) (projects example_db) = Some site \<and>
   PUT_project example_lib (example_env new_id)
     (example_req (Some (''tok-'' @ alice)) site_id Map.empty) example_db =
     (respond 200 (ProjectJson (Some
        (site\<lparr>htmlCode := JStr '''', cssCode := JStr '''', jsCode := JStr ''''\<rparr>))),
      example_db\<lparr>projects :=
        [site\<lparr>htmlCode := JStr '''', cssCode := JStr '''', jsCode := JStr ''''\<rparr>, blog]\<rparr>) \<and>
   PUT_project example_lib (example_env new_id)
     (example_req (Some (''tok-'' @ alice)) site_id [''jsCode'' \<mapsto> JStr ''g()''])
     example_db =
     (respond 200 (ProjectJson (Some
        (site\<lparr>htmlCode := JStr '''', cssCode := JStr '''', jsCode := JStr ''g()''\<rparr>))),
      example_db\<lparr>projects :=
        [site\<lparr>htmlCode := JStr '''', cssCode := JStr '''', jsCode := JStr ''g()''\<rparr>,
         blog]\<rparr>)"
  using update_clears_absent_fields [where L = example_lib and E = "example_env new_id"
      and req = "example_req (Some (''tok-'' @ alice)) site_id Map.empty" and d = example_db
      and token = "''tok-'' @ alice"
      and u = "\<lparr>claim_userId = alice, claim_username = JNull\<rparr>"
      and i = site_id and p = site]
    update_clears_absent_fields [where L = example_lib and E = "example_env new_id"
      and req = "example_req (Some (''tok-'' @ alice)) site_id [''jsCode'' \<mapsto> JStr ''g()'']"
      and d = example_db and token = "''tok-'' @ alice"
      and u = "\<lparr>claim_userId = alice, claim_username = JNull\<rparr>"
      and i = site_id and p = site]
  by (simp add: eval_defs)

text \<open>
  Claim C9. A successful \<open>PUT /project/:projectId\<close> leaves the users and every project
  with another id as they were, and the project it updates keeps its id, name and
  owner: at most its three code fields differ.
\<close>

theorem update_changes_only_code:
  assumes "status (fst (PUT_project L E req d)) = 200"
  shows "users (snd (PUT_project L E req d)) = users d \<and>
         online (snd (PUT_project L E req d)) = online d \<and>
         list_all2
           (\<lambda>p p'. p' = p \<or>
              (castObjectId L (projectId req) = Some (p_id p) \<and>
               p' = p\<lparr>htmlCode := htmlCode p', cssCode := cssCode p', jsCode := jsCode p'\<rparr>))
           (projects d) (projects (snd (PUT_project L E req d)))"
proof -
  have eq: "PUT_project L E req d = update_project L E req d"
    using assms by (rule PUT_project_200)
  with assms have "status (fst (update_project L E req d)) = 200" by simp
  from update_project_200 [OF this] obtain i p p' where
    i: "castObjectId L (projectId req) = Some i" and
    f: "find (\<lambda>q. p_id q = i) (projects d) = Some p" and
    s: "set_code L p (field (body req) ''htmlCode'') (field (body req) ''cssCode'')
             (field (body req) ''jsCode'') = Inr p'" and
    r: "update_project L E req d =
             (respond 200 (ProjectJson (Some p')), d\<lparr>projects := replace_id p' (projects d)\<rparr>)"
    by blast
  have p': "p' = p\<lparr>htmlCode := htmlCode p', cssCode := cssCode p', jsCode := jsCode p'\<rparr>"
    using s by (rule set_code_Inr)
  have pid: "p_id p = i" using f by (rule find_p_id)
  have "p_id p' = p_id p" using s by (rule set_code_p_id)
  with pid f have "find (\<lambda>x. p_id x = p_id p') (projects d) = Some p" by simp
  then have "list_all2 (\<lambda>q q'. q' = q \<or> (q = p \<and> q' = p')) (projects d)
               (replace_id p' (projects d))"
    by (rule replace_id_rel)
  then have "list_all2
           (\<lambda>q q'. q' = q \<or>
              (castObjectId L (projectId req) = Some (p_id q) \<and>
               q' = q\<lparr>htmlCode := htmlCode q', cssCode := cssCode q', jsCode := jsCode q'\<rparr>))
           (projects d) (replace_id p' (projects d))"
    using p' pid i by (auto elim!: list_all2_mono)
  then show ?thesis by (simp add: eq r)
qed

text \<open>Bob's project and the users are untouched when Alice's project is updated.\<close>

theorem update_changes_only_code_witness:
  "status (fst (PUT_project example_lib (example_env new_id)
     (example_req (Some (''tok-'' @ alice)) site_id [''htmlCode'' \<mapsto> JStr ''<b>z</b>''])
     example_db)) = 200 \<and>
   snd (PUT_project example_lib (example_env new_id)
     (example_req (Some (''tok-'' @ alice)) site_id [''htmlCode'' \<mapsto> JStr ''<b>z</b>''])
     example_db) =
     example_db\<lparr>projects :=
        [site\<lparr>htmlCode := JStr ''<b>z</b>'', cssCode := JStr '''', jsCode := JStr ''''\<rparr>,
         blog]\<rparr> \<and>
   users (snd (PUT_project example_lib (example_env new_id)
     (example_req (Some (''tok-'' @ alice)) site_id [''htmlCode'' \<mapsto> JStr ''<b>z</b>''])
     example_db)) = users example_db \<and>
   list_all2
     (\<lambda>p p'. p' = p \<or>
        (castObjectId example_lib site_id = Some (p_id p) \<and>
         p' = p\<lparr>htmlCode := htmlCode p', cssCode := cssCode p', jsCode := jsCode p'\<rparr>))
     (projects example_db)
     (projects (snd (PUT_project example_lib (example_env new_id)
        (example_req (Some (''tok-'' @ alice)) site_id [''htmlCode'' \<mapsto> JStr ''<b>z</b>''])
        example_db)))"
  using update_changes_only_code [where L = example_lib and E = "example_env new_id"
      and req = "example_req (Some (''tok-'' @ alice)) site_id
        [''htmlCode'' \<mapsto> JStr ''<b>z</b>'']"
      and d = example_db]
  by (simp add: eval_defs)

section \<open>Create\<close>

text \<open>
  Claim C5. For an authenticated caller, \<open>POST /project\<close> takes the owner of the new
  project from the verified token and from nowhere else: a \<open>userId\<close> (or any other
  property but \<open>name\<close>, \<open>htmlCode\<close>, \<open>cssCode\<close>, \<open>jsCode\<close>) in the body changes nothing;
  whenever the document can be saved (the store is reachable, the new id is unused and
  the four body values fit their \<open>String\<close> paths) the answer is 201 with the created
  project, which is appended to the store; and every project created with a 201
  has the caller's id as its \<open>userId\<close>.
\<close>

theorem create_forces_owner:
  assumes "authorization req = Some token"
    and "jwt_verify L token (JWT_SECRET E) (clock E) = Inr u"
  shows "(k \<notin> {''name'', ''htmlCode'', ''cssCode'', ''jsCode''} \<longrightarrow>
            POST_project L E (req\<lparr>body := (body req)(k \<mapsto> v)\<rparr>) d = POST_project L E req d) \<and>
         (online d \<and> fresh_oid E \<notin> set (map p_id (projects d)) \<and>
          castString L ''name'' (field (body req) ''name'') = Inr nm \<and>
          castString L ''htmlCode'' (field (body req) ''htmlCode'') = Inr h \<and>
          castString L ''cssCode'' (field (body req) ''cssCode'') = Inr c \<and>
          castString L ''jsCode'' (field (body req) ''jsCode'') = Inr j \<longrightarrow>
            POST_project L E req d =
              (respond 201 (ProjectJson (Some
                 \<lparr>p_id = fresh_oid E, name = nm, userId = JStr (claim_userId u),
                  htmlCode = h, cssCode = c, jsCode = j\<rparr>)),
               d\<lparr>projects := projects d @
                 [\<lparr>p_id = fresh_oid E, name = nm, userId = JStr (claim_userId u),
                   htmlCode = h, cssCode = c, jsCode = j\<rparr>]\<rparr>)) \<and>
         (status (fst (POST_project L E req d)) = 201 \<longrightarrow>
            (\<exists>p. POST_project L E req d =
                    (respond 201 (ProjectJson (Some p)), d\<lparr>projects := projects d @ [p]\<rparr>) \<and>
                  userId p = JStr (claim_userId u)))"
proof -
  note eq = POST_project_accept [OF assms]
  have a2: "authorization (req\<lparr>body := (body req)(k \<mapsto> v)\<rparr>) = Some token"
    using assms(1) by simp
  have A: "POST_project L E (req\<lparr>body := (body req)(k \<mapsto> v)\<rparr>) d = POST_project L E req d"
    if "k \<notin> {''name'', ''htmlCode'', ''cssCode'', ''jsCode''}"
    by (simp add: eq POST_project_accept [OF a2 assms(2)]
        create_project_body_irrelevant [OF that])
  have B: "POST_project L E req d =
              (respond 201 (ProjectJson (Some
                 \<lparr>p_id = fresh_oid E, name = nm, userId = JStr (claim_userId u),
                  htmlCode = h, cssCode = c, jsCode = j\<rparr>)),
               d\<lparr>projects := projects d @
                 [\<lparr>p_id = fresh_oid E, name = nm, userId = JStr (claim_userId u),
                   htmlCode = h, cssCode = c, jsCode = j\<rparr>]\<rparr>)"
    if "online d" "fresh_oid E \<notin> set (map p_id (projects d))"
      "castString L ''name'' (field (body req) ''name'') = Inr nm"
      "castString L ''htmlCode'' (field (body req) ''htmlCode'') = Inr h"
      "castString L ''cssCode'' (field (body req) ''cssCode'') = Inr c"
      "castString L ''jsCode'' (field (body req) ''jsCode'') = Inr j"
    using that
    by (simp add: eq create_project_def new_Project_def castString_simps save_new_Project_def)
  have C: "\<exists>p. POST_project L E req d =
                    (respond 201 (ProjectJson (Some p)), d\<lparr>projects := projects d @ [p]\<rparr>) \<and>
                  userId p = JStr (claim_userId u)"
    if "status (fst (POST_project L E req d)) = 201"
  proof -
    from that have "status (fst (create_project L E (req\<lparr>user := Some u\<rparr>) d)) = 201"
      by (simp add: eq)
    from create_project_201 [OF this] obtain p where
      n: "new_Project L E (field (body req) ''name'') (JStr (claim_userId u))
             (field (body req) ''htmlCode'') (field (body req) ''cssCode'')
             (field (body req) ''jsCode'') = Inr p" and
      r: "create_project L E (req\<lparr>user := Some u\<rparr>) d =
             (respond 201 (ProjectJson (Some p)), d\<lparr>projects := projects d @ [p]\<rparr>)"
      by auto
    from new_Project_Inr(3) [OF n] have "userId p = JStr (claim_userId u)"
      by (simp add: castString_simps)
    with r show ?thesis unfolding eq by blast
  qed
  show ?thesis using A B C by blast
qed

text \<open>Alice's request names Bob as \<open>userId\<close>; the project is stored as Alice's.\<close>

theorem create_forces_owner_witness:
  "authorization (example_req (Some (''tok-'' @ alice)) []
      [''name'' \<mapsto> JStr ''Shop'', ''htmlCode'' \<mapsto> JStr ''<h1>x</h1>'',
       ''cssCode'' \<mapsto> JStr '''', ''jsCode'' \<mapsto> JStr '''']) = Some (''tok-'' @ alice) \<and>
   jwt_verify example_lib (''tok-'' @ alice) (JWT_SECRET (example_env new_id))
     (clock (example_env new_id)) = Inr \<lparr>claim_userId = alice, claim_username = JNull\<rparr> \<and>
   ''userId'' \<notin> {''name'', ''htmlCode'', ''cssCode'', ''jsCode''} \<and>
   online example_db \<and> fresh_oid (example_env new_id) \<notin> set (map p_id (projects example_db)) \<and>
   POST_project example_lib (example_env new_id)
     (example_req (Some (''tok-'' @ alice)) []
        [''name'' \<mapsto> JStr ''Shop'', ''htmlCode'' \<mapsto> JStr ''<h1>x</h1>'',
         ''cssCode'' \<mapsto> JStr '''', ''jsCode'' \<mapsto> JStr '''', ''userId'' \<mapsto> JStr bob])
     example_db =
     (respond 201 (ProjectJson (Some
        \<lparr>p_id = new_id, name = JStr ''Shop'', userId = JStr alice,
         htmlCode = JStr ''<h1>x</h1>'', cssCode = JStr '''', jsCode = JStr ''''\<rparr>)),
      example_db\<lparr>projects := [site, blog,
        \<lparr>p_id = new_id, name = JStr ''Shop'', userId = JStr alice,
          htmlCode = JStr ''<h1>x</h1>'', cssCode = JStr '''', jsCode = JStr ''''\<rparr>]\<rparr>)"
  using create_forces_owner [where L = example_lib and E = "example_env new_id"
      and req = "example_req (Some (''tok-'' @ alice)) []
        [''name'' \<mapsto> JStr ''Shop'', ''htmlCode'' \<mapsto> JStr ''<h1>x</h1>'',
         ''cssCode'' \<mapsto> JStr '''', ''jsCode'' \<mapsto> JStr '''']"
      and d = example_db and token = "''tok-'' @ alice"
      and u = "\<lparr>claim_userId = alice, claim_username = JNull\<rparr>"
      and k = "''userId''" and v = "JStr bob"
      and nm = "JStr ''Shop''" and h = "JStr ''<h1>x</h1>''" and c = "JStr ''''"
      and j = "JStr ''''"]
  by (simp add: eval_defs)

text \<open>
  Claim C8, as the code has it. \<open>ProjectSchema\<close> declares no default and the handler
  of \<open>POST /project\<close> passes the body's values on unchanged, so a project is created
  with its code fields as supplied: a code field that the body omits is left unset
  in the stored document (it is not the empty string), and one supplied as a string
  is stored as that string. Only the update writes the empty string for a field the
  body omits.
\<close>

theorem create_stores_code_as_supplied:
  assumes "authorization req = Some token"
    and "jwt_verify L token (JWT_SECRET E) (clock E) = Inr u"
    and "status (fst (POST_project L E req d)) = 201"
  shows "\<exists>p. POST_project L E req d =
                (respond 201 (ProjectJson (Some p)), d\<lparr>projects := projects d @ [p]\<rparr>) \<and>
              (body req ''htmlCode'' = None \<longrightarrow> htmlCode p = JUndefined) \<and>
              (body req ''cssCode'' = None \<longrightarrow> cssCode p = JUndefined) \<and>
              (body req ''jsCode'' = None \<longrightarrow> jsCode p = JUndefined) \<and>
              (\<forall>s. body req ''htmlCode'' = Some (JStr s) \<longrightarrow> htmlCode p = JStr s) \<and>
              (\<forall>s. body req ''cssCode'' = Some (JStr s) \<longrightarrow> cssCode p = JStr s) \<and>
              (\<forall>s. body req ''jsCode'' = Some (JStr s) \<longrightarrow> jsCode p = JStr s)"
proof -
  note eq = POST_project_accept [OF assms(1,2)]
  from assms(3) have "status (fst (create_project L E (req\<lparr>user := Some u\<rparr>) d)) = 201"
    by (simp add: eq)
  from create_project_201 [OF this] obtain p where
    n: "new_Project L E (field (body req) ''name'') (JStr (claim_userId u))
           (field (body req) ''htmlCode'') (field (body req) ''cssCode'')
           (field (body req) ''jsCode'') = Inr p" and
    r: "create_project L E (req\<lparr>user := Some u\<rparr>) d =
           (respond 201 (ProjectJson (Some p)), d\<lparr>projects := projects d @ [p]\<rparr>)"
    by auto
  have "(body req ''htmlCode'' = None \<longrightarrow> htmlCode p = JUndefined) \<and>
        (\<forall>s. body req ''htmlCode'' = Some (JStr s) \<longrightarrow> htmlCode p = JStr s)"
    using new_Project_Inr(4) [OF n] by (auto simp: field_simps castString_simps)
  moreover have "(body req ''cssCode'' = None \<longrightarrow> cssCode p = JUndefined) \<and>
        (\<forall>s. body req ''cssCode'' = Some (JStr s) \<longrightarrow> cssCode p = JStr s)"
    using new_Project_Inr(5) [OF n] by (auto simp: field_simps castString_simps)
  moreover have "(body req ''jsCode'' = None \<longrightarrow> jsCode p = JUndefined) \<and>
        (\<forall>s. body req ''jsCode'' = Some (JStr s) \<longrightarrow> jsCode p = JStr s)"
    using new_Project_Inr(6) [OF n] by (auto simp: field_simps castString_simps)
  ultimately show ?thesis unfolding eq by (intro exI [of _ p]) (simp add: r)
qed

text \<open>A body with a name and \<open>cssCode\<close> only: the other two code fields stay unset.\<close>

theorem create_stores_code_as_supplied_witness:
  "authorization (example_req (Some (''tok-'' @ alice)) []
      [''name'' \<mapsto> JStr ''Shop'', ''cssCode'' \<mapsto> JStr ''h1 {}'']) = Some (''tok-'' @ alice) \<and>
   jwt_verify example_lib (''tok-'' @ alice) (JWT_SECRET (example_env new_id))
     (clock (example_env new_id)) = Inr \<lparr>claim_userId = alice, claim_username = JNull\<rparr> \<and>
   POST_project example_lib (example_env new_id)
     (example_req (Some (''tok-'' @ alice)) []
        [''name'' \<mapsto> JStr ''Shop'', ''cssCode'' \<mapsto> JStr ''h1 {}'']) empty_db =
     (respond 201 (ProjectJson (Some
        \<lparr>p_id = new_id, name = JStr ''Shop'', userId = JStr alice,
         htmlCode = JUndefined, cssCode = JStr ''h1 {}'', jsCode = JUndefined\<rparr>)),
      empty_db\<lparr>projects :=
        [\<lparr>p_id = new_id, name = JStr ''Shop'', userId = JStr alice,
          htmlCode = JUndefined, cssCode = JStr ''h1 {}'', jsCode = JUndefined\<rparr>]\<rparr>)"
  using create_stores_code_as_supplied [where L = example_lib and E = "example_env new_id"
      and req = "example_req (Some (''tok-'' @ alice)) []
        [''name'' \<mapsto> JStr ''Shop'', ''cssCode'' \<mapsto> JStr ''h1 {}'']"
      and d = empty_db and token = "''tok-'' @ alice"
      and u = "\<lparr>claim_userId = alice, claim_username = JNull\<rparr>"]
  by (simp add: eval_defs)

text \<open>
  Claim C8 as stated fails: a \<open>POST /project\<close> with only a name in its body is
  answered 201 and persists a project whose \<open>htmlCode\<close>, \<open>cssCode\<close> and \<open>jsCode\<close> are
  unset, not the empty string.
\<close>

theorem create_default_counterexample:
  "status (fst (POST_project example_lib (example_env new_id)
     (example_req (Some (''tok-'' @ alice)) [] [''name'' \<mapsto> JStr ''Shop'']) empty_db)) = 201 \<and>
   projects (snd (POST_project example_lib (example_env new_id)
     (example_req (Some (''tok-'' @ alice)) [] [''name'' \<mapsto> JStr ''Shop'']) empty_db)) =
     [\<lparr>p_id = new_id, name = JStr ''Shop'', userId = JStr alice,
       htmlCode = JUndefined, cssCode = JUndefined, jsCode = JUndefined\<rparr>] \<and>
   map htmlCode (projects (snd (POST_project example_lib (example_env new_id)
     (example_req (Some (''tok-'' @ alice)) [] [''name'' \<mapsto> JStr ''Shop'']) empty_db))) \<noteq>
     [JStr '''']"
  by (simp add: eval_defs)

section \<open>List\<close>

text \<open>
  Claim C6. The claim is that \<open>GET /projects\<close> returns the caller's projects newest
  first. The handler sorts by \<open>createdAt\<close> descending, but \<open>ProjectSchema\<close> gives no
  document a \<open>createdAt\<close>, so every key is missing and the sort keeps the order in
  which the store yields the documents: two projects created one after the other
  are listed oldest first. (That only the caller's projects are returned, and an
  empty list when there are none, is \<open>get_projects_result\<close>.)
\<close>

theorem list_keeps_store_order:
  "POST_project example_lib (example_env new_id)
      (example_req (Some (''tok-'' @ alice)) [] [''name'' \<mapsto> JStr ''First'']) empty_db =
     (respond 201 (ProjectJson (Some
        \<lparr>p_id = new_id, name = JStr ''First'', userId = JStr alice,
         htmlCode = JUndefined, cssCode = JUndefined, jsCode = JUndefined\<rparr>)),
      empty_db\<lparr>projects :=
        [\<lparr>p_id = new_id, name = JStr ''First'', userId = JStr alice,
          htmlCode = JUndefined, cssCode = JUndefined, jsCode = JUndefined\<rparr>]\<rparr>) \<and>
   POST_project example_lib (example_env next_id)
      (example_req (Some (''tok-'' @ alice)) [] [''name'' \<mapsto> JStr ''Second''])
      (empty_db\<lparr>projects :=
        [\<lparr>p_id = new_id, name = JStr ''First'', userId = JStr alice,
          htmlCode = JUndefined, cssCode = JUndefined, jsCode = JUndefined\<rparr>]\<rparr>) =
     (respond 201 (ProjectJson (Some
        \<lparr>p_id = next_id, name = JStr ''Second'', userId = JStr alice,
         htmlCode = JUndefined, cssCode = JUndefined, jsCode = JUndefined\<rparr>)),
      empty_db\<lparr>projects :=
        [\<lparr>p_id = new_id, name = JStr ''First'', userId = JStr alice,
          htmlCode = JUndefined, cssCode = JUndefined, jsCode = JUndefined\<rparr>,
         \<lparr>p_id = next_id, name = JStr ''Second'', userId = JStr alice,
          htmlCode = JUndefined, cssCode = JUndefined, jsCode = JUndefined\<rparr>]\<rparr>) \<and>
   fst (GET_projects example_lib (example_env other_id)
      (example_req (Some (''tok-'' @ alice)) [] Map.empty)
      (empty_db\<lparr>projects :=
        [\<lparr>p_id = new_id, name = JStr ''First'', userId = JStr alice,
          htmlCode = JUndefined, cssCode = JUndefined, jsCode = JUndefined\<rparr>,
         \<lparr>p_id = next_id, name = JStr ''Second'', userId = JStr alice,
          htmlCode = JUndefined, cssCode = JUndefined, jsCode = JUndefined\<rparr>]\<rparr>)) =
     respond 200 (ProjectsJson
       [\<lparr>p_id = new_id, name = JStr ''First'', userId = JStr alice,
         htmlCode = JUndefined, cssCode = JUndefined, jsCode = JUndefined\<rparr>,
        \<lparr>p_id = next_id, name = JStr ''Second'', userId = JStr alice,
         htmlCode = JUndefined, cssCode = JUndefined, jsCode = JUndefined\<rparr>])"
  by (simp add: eval_defs)

section \<open>The token check\<close>

text \<open>
  Claim C7. On a protected route the value of the \<open>Authorization\<close> header is handed
  to \<open>jwt.verify\<close> as it is. Without the header the answer is 401; when verification
  of the header's value fails, for whatever reason, the answer is 403; in both cases
  the store is unchanged and the answer is the same for every route handler, which
  is not run. When verification succeeds the handler runs with \<open>req.user\<close> set to
  the verified payload.
\<close>

theorem authenticateToken_gate:
  "(authorization req = None \<longrightarrow>
      authenticateToken L E handler req d = (respond 401 SendStatus, d)) \<and>
   (authorization req = Some token \<and>
      jwt_verify L token (JWT_SECRET E) (clock E) = Inl err \<longrightarrow>
      authenticateToken L E handler req d = (respond 403 SendStatus, d)) \<and>
   (authorization req = Some token \<and>
      jwt_verify L token (JWT_SECRET E) (clock E) = Inr u \<longrightarrow>
      authenticateToken L E handler req d = handler (req\<lparr>user := Some u\<rparr>) d)"
  by (simp add: authenticateToken_def)

text \<open>No header: 401. A valid token behind the prefix \<open>Bearer\<close>: 403, and the project
  is not deleted. The same token sent raw: the handler deletes the project.\<close>

theorem authenticateToken_gate_witness:
  "authorization (example_req None site_id Map.empty) = None \<and>
   authenticateToken example_lib (example_env new_id)
     (delete_project example_lib (example_env new_id))
     (example_req None site_id Map.empty) example_db = (respond 401 SendStatus, example_db) \<and>
   jwt_verify example_lib (''Bearer tok-'' @ alice) (JWT_SECRET (example_env new_id))
     (clock (example_env new_id)) = Inl (Error ''jwt malformed'') \<and>
   authenticateToken example_lib (example_env new_id)
     (delete_project example_lib (example_env new_id))
     (example_req (Some (''Bearer tok-'' @ alice)) site_id Map.empty) example_db =
       (respond 403 SendStatus, example_db) \<and>
   jwt_verify example_lib (''tok-'' @ alice) (JWT_SECRET (example_env new_id))
     (clock (example_env new_id)) = Inr \<lparr>claim_userId = alice, claim_username = JNull\<rparr> \<and>
   authenticateToken example_lib (example_env new_id)
     (delete_project example_lib (example_env new_id))
     (example_req (Some (''tok-'' @ alice)) site_id Map.empty) example_db =
       (respond 200 (Message ''Project deleted successfully''),
        example_db\<lparr>projects := [blog]\<rparr>)"
  using authenticateToken_gate [where L = example_lib and E = "example_env new_id"
      and req = "example_req None site_id Map.empty" and d = example_db
      and handler = "delete_project example_lib (example_env new_id)"]
    authenticateToken_gate [where L = example_lib and E = "example_env new_id"
      and req = "example_req (Some (''Bearer tok-'' @ alice)) site_id Map.empty"
      and d = example_db
      and handler = "delete_project example_lib (example_env new_id)"
      and token = "''Bearer tok-'' @ alice" and err = "Error ''jwt malformed''"]
    authenticateToken_gate [where L = example_lib and E = "example_env new_id"
      and req = "example_req (Some (''tok-'' @ alice)) site_id Map.empty" and d = example_db
      and handler = "delete_project example_lib (example_env new_id)"
      and token = "''tok-'' @ alice"
      and u = "\<lparr>claim_userId = alice, claim_username = JNull\<rparr>"]
  by (simp add: eval_defs)

section \<open>Register and login\<close>

text \<open>
  Claim C10, as the code has it. \<open>POST /register\<close> checks the presence of nothing:
  with the store reachable and the new id unused, a request whose password is a
  string that bcrypt hashes, and whose \<open>username\<close> and \<open>email\<close> are each a string or
  absent, is answered 201 and a user is persisted with the username and email of the
  body, unset where the body has none; a request without a password is answered 400
  with the error that bcrypt raises on the missing input. Every request is answered
  201 or 400, and a 400 persists nothing. The answer is 201 exactly when bcrypt
  hashes the password value, the \<open>username\<close> and \<open>email\<close> values fit their \<open>String\<close>
  paths, the store is reachable and the new id is unused; so a 400 also answers a
  password that is present but not a string bcrypt accepts, a username or email
  that cannot be cast, and a store that refuses the insert.
\<close>

theorem register_no_presence_check:
  "(body req ''password'' = Some (JStr pw) \<and>
    bcrypt_hash L (JStr pw) 10 (entropy E) = Inr h \<and>
    online d \<and> fresh_oid E \<notin> set (map u_id (users d)) \<and>
    (body req ''username'' = None \<or> body req ''username'' = Some (JStr un)) \<and>
    (body req ''email'' = None \<or> body req ''email'' = Some (JStr em)) \<longrightarrow>
      register L E req d =
        (respond 201 (Message ''User registered successfully''),
         d\<lparr>users := users d @
           [\<lparr>u_id = fresh_oid E, username = field (body req) ''username'',
             email = field (body req) ''email'', password = JStr h\<rparr>]\<rparr>)) \<and>
   (body req ''password'' = None \<and>
    bcrypt_hash L JUndefined 10 (entropy E) = Inl e \<longrightarrow>
      register L E req d = (respond 400 (ErrorOf e), d)) \<and>
   (status (fst (register L E req d)) = 201 \<or>
    status (fst (register L E req d)) = 400 \<and> snd (register L E req d) = d) \<and>
   (status (fst (register L E req d)) = 201 \<longleftrightarrow>
      (\<exists>h' un' em'.
         bcrypt_hash L (field (body req) ''password'') 10 (entropy E) = Inr h' \<and>
         castString L ''username'' (field (body req) ''username'') = Inr un' \<and>
         castString L ''email'' (field (body req) ''email'') = Inr em' \<and>
         online d \<and> fresh_oid E \<notin> set (map u_id (users d))))"
proof -
  have ok: "register L E req d =
              (respond 201 (Message ''User registered successfully''),
               d\<lparr>users := users d @
                 [\<lparr>u_id = fresh_oid E, username = un', email = em', password = JStr h'\<rparr>]\<rparr>)"
    if "bcrypt_hash L (field (body req) ''password'') 10 (entropy E) = Inr h'"
      "castString L ''username'' (field (body req) ''username'') = Inr un'"
      "castString L ''email'' (field (body req) ''email'') = Inr em'"
      "online d" "fresh_oid E \<notin> set (map u_id (users d))" for h' un' em'
    using that
    by (simp add: register_def new_User_def castString_simps save_new_User_def)
  have bad: "register L E req d = (respond 400 (ErrorOf e'), d)"
    if "bcrypt_hash L (field (body req) ''password'') 10 (entropy E) = Inl e'" for e'
    using that by (simp add: register_def)
  have A: "register L E req d =
              (respond 201 (Message ''User registered successfully''),
               d\<lparr>users := users d @
                 [\<lparr>u_id = fresh_oid E, username = field (body req) ''username'',
                   email = field (body req) ''email'', password = JStr h\<rparr>]\<rparr>)"
    if "body req ''password'' = Some (JStr pw)" "bcrypt_hash L (JStr pw) 10 (entropy E) = Inr h"
      "online d" "fresh_oid E \<notin> set (map u_id (users d))"
      "body req ''username'' = None \<or> body req ''username'' = Some (JStr un)"
      "body req ''email'' = None \<or> body req ''email'' = Some (JStr em)"
  proof -
    have u: "castString L ''username'' (field (body req) ''username'') =
               Inr (field (body req) ''username'')"
      using that(5) by (auto simp: field_simps castString_simps)
    have m: "castString L ''email'' (field (body req) ''email'') =
               Inr (field (body req) ''email'')"
      using that(6) by (auto simp: field_simps castString_simps)
    have "bcrypt_hash L (field (body req) ''password'') 10 (entropy E) = Inr h"
      using that(1,2) by (simp add: field_simps)
    then show ?thesis using u m that(3,4) by (rule ok)
  qed
  have B: "register L E req d = (respond 400 (ErrorOf e), d)"
    if "body req ''password'' = None" "bcrypt_hash L JUndefined 10 (entropy E) = Inl e"
    using that by (intro bad) (simp add: field_simps)
  have C: "status (fst (register L E req d)) = 201 \<or>
           status (fst (register L E req d)) = 400 \<and> snd (register L E req d) = d"
    by (simp add: register_def save_new_User_def respond_def split: sum.splits)
  have D: "status (fst (register L E req d)) = 201 \<longleftrightarrow>
      (\<exists>h' un' em'.
         bcrypt_hash L (field (body req) ''password'') 10 (entropy E) = Inr h' \<and>
         castString L ''username'' (field (body req) ''username'') = Inr un' \<and>
         castString L ''email'' (field (body req) ''email'') = Inr em' \<and>
         online d \<and> fresh_oid E \<notin> set (map u_id (users d)))"
  proof
    assume "status (fst (register L E req d)) = 201"
    then show "\<exists>h' un' em'.
         bcrypt_hash L (field (body req) ''password'') 10 (entropy E) = Inr h' \<and>
         castString L ''username'' (field (body req) ''username'') = Inr un' \<and>
         castString L ''email'' (field (body req) ''email'') = Inr em' \<and>
         online d \<and> fresh_oid E \<notin> set (map u_id (users d))"
      by (auto simp: register_def new_User_def save_new_User_def respond_def
          split: sum.splits if_splits)
  next
    assume "\<exists>h' un' em'.
         bcrypt_hash L (field (body req) ''password'') 10 (entropy E) = Inr h' \<and>
         castString L ''username'' (field (body req) ''username'') = Inr un' \<and>
         castString L ''email'' (field (body req) ''email'') = Inr em' \<and>
         online d \<and> fresh_oid E \<notin> set (map u_id (users d))"
    then obtain h' un' em' where
      "bcrypt_hash L (field (body req) ''password'') 10 (entropy E) = Inr h'"
      "castString L ''username'' (field (body req) ''username'') = Inr un'"
      "castString L ''email'' (field (body req) ''email'') = Inr em'"
      "online d" "fresh_oid E \<notin> set (map u_id (users d))"
      by blast
    then show "status (fst (register L E req d)) = 201"
      by (simp add: ok respond_def)
  qed
  show ?thesis using A B C D by blast
qed

text \<open>A body with a password only registers a user without username and email; a
  body without a password is refused with bcrypt's error.\<close>

theorem register_no_presence_check_witness:
  "online example_db \<and> fresh_oid (example_env alice) \<notin> set (map u_id (users example_db)) \<and>
   bcrypt_hash example_lib (JStr ''pw'') 10 (entropy (example_env alice)) = Inr ''#pw'' \<and>
   register example_lib (example_env alice)
     (example_req None [] [''password'' \<mapsto> JStr ''pw'']) example_db =
     (respond 201 (Message ''User registered successfully''),
      example_db\<lparr>users := users example_db @
        [\<lparr>u_id = alice, username = JUndefined, email = JUndefined,
          password = JStr ''#pw''\<rparr>]\<rparr>) \<and>
   bcrypt_hash example_lib JUndefined 10 (entropy (example_env alice)) =
     Inl (Error ''Illegal arguments'') \<and>
   register example_lib (example_env alice)
     (example_req None [] [''username'' \<mapsto> JStr ''ann'', ''email'' \<mapsto> JStr ''a@x.org''])
     example_db =
     (respond 400 (ErrorOf (Error ''Illegal arguments'')), example_db)"
  using register_no_presence_check [where L = example_lib and E = "example_env alice"
      and req = "example_req None [] [''password'' \<mapsto> JStr ''pw'']" and d = example_db
      and un = "''ann''" and em = "''a@x.org''" and pw = "''pw''" and h = "''#pw''",
      THEN conjunct1]
    register_no_presence_check [where L = example_lib and E = "example_env alice"
      and req = "example_req None []
        [''username'' \<mapsto> JStr ''ann'', ''email'' \<mapsto> JStr ''a@x.org'']"
      and d = example_db and e = "Error ''Illegal arguments''",
      THEN conjunct2, THEN conjunct1]
  by (simp add: eval_defs)

text \<open>
  Claim C10 as stated fails. A request whose password is a valid string is answered
  400, and no user is persisted, when its username is an array (the cast to the
  \<open>String\<close> path fails) and when the store cannot be reached; and a request whose
  password is present, the number 5, is answered 400 as well: it is not only the
  absent password that fails.
\<close>

theorem register_only_absent_password_counterexample:
  "register example_lib (example_env alice)
     (example_req None []
        [''username'' \<mapsto> JArr [JStr ''ann''], ''email'' \<mapsto> JStr ''a@x.org'',
         ''password'' \<mapsto> JStr ''pw'']) example_db =
     (respond 400 (ErrorOf (ValidationError ''username'')), example_db) \<and>
   register example_lib (example_env alice)
     (example_req None []
        [''username'' \<mapsto> JStr ''ann'', ''email'' \<mapsto> JStr ''a@x.org'',
         ''password'' \<mapsto> JStr ''pw'']) (example_db\<lparr>online := False\<rparr>) =
     (respond 400 (ErrorOf MongoError), example_db\<lparr>online := False\<rparr>) \<and>
   body (example_req None []
        [''username'' \<mapsto> JStr ''ann'', ''email'' \<mapsto> JStr ''a@x.org'',
         ''password'' \<mapsto> JNum 5]) ''password'' = Some (JNum 5) \<and>
   register example_lib (example_env alice)
     (example_req None []
        [''username'' \<mapsto> JStr ''ann'', ''email'' \<mapsto> JStr ''a@x.org'',
         ''password'' \<mapsto> JNum 5]) example_db =
     (respond 400 (ErrorOf (Error ''Illegal arguments'')), example_db)"
  by (simp add: eval_defs)

text \<open>
  Claim C4. Let username, email and password be strings, the store reachable, the
  new id unused, and no stored user have this email. If bcrypt hashes the password
  and accepts the password against that digest, and \<open>jwt.sign\<close> signs the payload,
  then register is answered 201 and persists the user under the new id, and a login
  with the same email and password against the resulting store is answered 200 with
  the token signed over a payload whose \<open>userId\<close> is the id of the user that
  register created.
\<close>

theorem register_then_login:
  assumes "body req ''username'' = Some (JStr un)"
    and "body req ''email'' = Some (JStr em)"
    and "body req ''password'' = Some (JStr pw)"
    and "body req' ''email'' = Some (JStr em)"
    and "body req' ''password'' = Some (JStr pw)"
    and "online d"
    and "fresh_oid E \<notin> set (map u_id (users d))"
    and "\<forall>x \<in> set (users d). email x \<noteq> JStr em"
    and "bcrypt_hash L (JStr pw) 10 (entropy E) = Inr h"
    and "bcrypt_compare L (JStr pw) (JStr h) = Inr True"
    and "jwt_sign L \<lparr>claim_userId = fresh_oid E, claim_username = JStr un\<rparr>
           (JWT_SECRET E') ''1h'' (clock E') = Inr tok"
  shows "register L E req d =
           (respond 201 (Message ''User registered successfully''),
            d\<lparr>users := users d @
              [\<lparr>u_id = fresh_oid E, username = JStr un, email = JStr em, password = JStr h\<rparr>]\<rparr>) \<and>
         login L E' req' (snd (register L E req d)) =
           (respond 200 (Token tok), snd (register L E req d)) \<and>
         (\<exists>payload. jwt_sign L payload (JWT_SECRET E') ''1h'' (clock E') = Inr tok \<and>
            claim_userId payload = u_id (last (users (snd (register L E req d)))))"
proof -
  let ?u = "\<lparr>u_id = fresh_oid E, username = JStr un, email = JStr em, password = JStr h\<rparr>"
  let ?d1 = "d\<lparr>users := users d @ [?u]\<rparr>"
  have r: "register L E req d = (respond 201 (Message ''User registered successfully''), ?d1)"
    using assms(1,2,3,6,7,9)
    by (simp add: register_def field_simps new_User_def castString_simps save_new_User_def)
  have f: "find (\<lambda>x. email x = JStr em) (users d @ [?u]) = Some ?u"
    using assms(8) by (intro find_append_new) simp_all
  have fo: "User_findOne_email L (field (body req') ''email'') ?d1 = Inr (Some ?u)"
    using assms(4,6) f by (simp add: User_findOne_email_def filter_String_def field_simps)
  have l: "login L E' req' ?d1 = (respond 200 (Token tok), ?d1)"
    using assms(5,10,11) by (simp add: login_def fo field_simps)
  have "claim_userId \<lparr>claim_userId = fresh_oid E, claim_username = JStr un\<rparr> =
          u_id (last (users ?d1))"
    by simp
  with assms(11) have "\<exists>payload. jwt_sign L payload (JWT_SECRET E') ''1h'' (clock E') = Inr tok \<and>
            claim_userId payload = u_id (last (users ?d1))"
    by blast
  with r l show ?thesis by simp
qed

text \<open>Ann registers next to Bob and logs in; her token carries the id she was given.\<close>

theorem register_then_login_witness:
  "online example_db \<and> fresh_oid (example_env alice) \<notin> set (map u_id (users example_db)) \<and>
   map email (users example_db) = [JStr ''b@x.org''] \<and>
   bcrypt_hash example_lib (JStr ''pw'') 10 (entropy (example_env alice)) = Inr ''#pw'' \<and>
   bcrypt_compare example_lib (JStr ''pw'') (JStr ''#pw'') = Inr True \<and>
   jwt_sign example_lib \<lparr>claim_userId = alice, claim_username = JStr ''ann''\<rparr>
     (JWT_SECRET (example_env new_id)) ''1h'' (clock (example_env new_id)) =
     Inr (''tok-'' @ alice) \<and>
   register example_lib (example_env alice)
     (example_req None []
        [''username'' \<mapsto> JStr ''ann'', ''email'' \<mapsto> JStr ''a@x.org'',
         ''password'' \<mapsto> JStr ''pw'']) example_db =
     (respond 201 (Message ''User registered successfully''),
      example_db\<lparr>users := users example_db @
        [\<lparr>u_id = alice, username = JStr ''ann'', email = JStr ''a@x.org'',
          password = JStr ''#pw''\<rparr>]\<rparr>) \<and>
   login example_lib (example_env new_id)
     (example_req None [] [''email'' \<mapsto> JStr ''a@x.org'', ''password'' \<mapsto> JStr ''pw''])
     (example_db\<lparr>users := users example_db @
        [\<lparr>u_id = alice, username = JStr ''ann'', email = JStr ''a@x.org'',
          password = JStr ''#pw''\<rparr>]\<rparr>) =
     (respond 200 (Token (''tok-'' @ alice)),
      example_db\<lparr>users := users example_db @
        [\<lparr>u_id = alice, username = JStr ''ann'', email = JStr ''a@x.org'',
          password = JStr ''#pw''\<rparr>]\<rparr>)"
  using register_then_login [where L = example_lib and E = "example_env alice"
      and E' = "example_env new_id"
      and req = "example_req None []
        [''username'' \<mapsto> JStr ''ann'', ''email'' \<mapsto> JStr ''a@x.org'',
         ''password'' \<mapsto> JStr ''pw'']"
      and req' = "example_req None []
        [''email'' \<mapsto> JStr ''a@x.org'', ''password'' \<mapsto> JStr ''pw'']"
      and d = example_db and un = "''ann''" and em = "''a@x.org''" and pw = "''pw''"
      and h = "''#pw''" and tok = "''tok-'' @ alice"]
  by (simp add: eval_defs)

end
